theory Spec2Isabelle
  imports Main "HOL-Library.Multiset"
begin

section \<open>JavaScript values, errors and results\<close>

text \<open>
  The tools of the Joplin MCP server are JavaScript classes with one \<open>async call\<close> method.
  A call either completes with a value or raises an error object; both are values here.
  An error object is seen by the handlers only through \<open>error.message\<close>,
  \<open>error.response.status\<close> and \<open>error.response.data?.error\<close>: a missing or empty
  message is \<open>''''\<close>, a missing response (or status, or data field) is \<open>None\<close>.

  Strings are sequences of code units. The arguments of a call have the types that the
  server declares for them: an identifier or a title is a string, a flag a boolean, a time or
  a page number an integer. An argument that may be left out is an option: \<open>None\<close> stands
  for \<open>undefined\<close> and \<open>null\<close>, which the code never tells apart.
\<close>

record js_error =
  message :: string
  response_status :: "nat option"
  response_data_error :: "string option"

datatype 'a outcome = Returns 'a | Throws js_error

definition new_Error :: "string \<Rightarrow> js_error" where
  "new_Error m = \<lparr>message = m, response_status = None, response_data_error = None\<rparr>"

text \<open>
  Reading a property of \<open>null\<close> or \<open>undefined\<close>, or spreading a value that is not
  iterable, raises a \<open>TypeError\<close>: an error object with a non-empty message (the text is
  the one of V8, the engine of Node) and no \<open>response\<close>.
\<close>

definition TypeError_read :: "string \<Rightarrow> js_error" where
  "TypeError_read p =
     new_Error (''Cannot read properties of undefined (reading '' @ [CHR 0x27] @ p @ [CHR 0x27] @ '')'')"

definition and_then :: "'a outcome \<Rightarrow> ('a \<Rightarrow> 'b outcome) \<Rightarrow> 'b outcome" where
  "and_then r f = (case r of Throws e \<Rightarrow> Throws e | Returns x \<Rightarrow> f x)"

definition truthy :: "string option \<Rightarrow> bool" where
  "truthy v = (case v of None \<Rightarrow> False | Some s \<Rightarrow> s \<noteq> [])"

definition truthy_num :: "int option \<Rightarrow> bool" where
  "truthy_num v = (case v of None \<Rightarrow> False | Some n \<Rightarrow> n \<noteq> 0)"

definition provided :: "string option \<Rightarrow> bool" where
  \<comment> \<open>\<open>x !== undefined && x !== null && x !== ''\<close>\<close>
  "provided v = (case v of None \<Rightarrow> False | Some s \<Rightarrow> s \<noteq> [])"

definition template :: "string option \<Rightarrow> string" where
  \<comment> \<open>a value inside a template literal\<close>
  "template v = (case v of None \<Rightarrow> ''undefined'' | Some s \<Rightarrow> s)"

definition dq :: string where
  "dq = [CHR 0x22]"

definition is_space :: "char \<Rightarrow> bool" where
  "is_space c = (c \<in> set [CHR 0x09, CHR 0x0A, CHR 0x0B, CHR 0x0C, CHR 0x0D, CHR 0x20, CHR 0xA0])"

definition trim :: "string \<Rightarrow> string" where
  "trim s = rev (dropWhile is_space (rev (dropWhile is_space s)))"

fun join :: "string \<Rightarrow> string list \<Rightarrow> string" where
  "join sep [] = []"
| "join sep [x] = x"
| "join sep (x # y # ys) = x @ sep @ join sep (y # ys)"

section \<open>validators.js\<close>

definition is_hex :: "char \<Rightarrow> bool" where
  "is_hex c = (c \<in> set ''0123456789abcdefABCDEF'')"

definition hex32 :: "string \<Rightarrow> bool" where
  \<comment> \<open>\<open>id.length === 32 && id.match(/^[a-f0-9]{32}$/i)\<close>\<close>
  "hex32 s = (length s = 32 \<and> list_all is_hex s)"

definition validateNoteId :: "string \<Rightarrow> unit outcome" where
  "validateNoteId i =
     (if i = [] \<or> \<not> hex32 i
      then Throws (new_Error ''Invalid note ID format. Must be 32-character hexadecimal string.'')
      else Returns ())"

definition validateFolderId :: "string \<Rightarrow> unit outcome" where
  "validateFolderId i =
     (if i = [] \<or> \<not> hex32 i
      then Throws (new_Error ''Invalid folder ID format. Must be 32-character hexadecimal string.'')
      else Returns ())"

definition validateOptionalId :: "string option \<Rightarrow> string \<Rightarrow> unit outcome" where
  "validateOptionalId i ty =
     (case i of
        None \<Rightarrow> Returns ()
      | Some s \<Rightarrow>
          if s \<noteq> [] \<and> \<not> hex32 s
          then Throws (new_Error (''Invalid '' @ ty @ '' format. Must be 32-character hexadecimal string.''))
          else Returns ())"

definition validateOptionalTitle :: "string option \<Rightarrow> unit outcome" where
  \<comment> \<open>the \<open>typeof title !== 'string'\<close> branch cannot be taken by a string argument\<close>
  "validateOptionalTitle t =
     (case t of
        None \<Rightarrow> Returns ()
      | Some s \<Rightarrow>
          if s \<noteq> [] \<and> length s > 255
          then Throws (new_Error ''Title cannot exceed 255 characters.'')
          else Returns ())"

definition validateOptionalBody :: "string option \<Rightarrow> unit outcome" where
  \<comment> \<open>only a type check, which a string argument passes\<close>
  "validateOptionalBody b = Returns ()"

definition validateOptionalBoolean :: "bool option \<Rightarrow> string \<Rightarrow> unit outcome" where
  \<comment> \<open>only a type check, which a boolean argument passes\<close>
  "validateOptionalBoolean v fieldName = Returns ()"

definition validateOptionalTimestamp :: "int option \<Rightarrow> string \<Rightarrow> unit outcome" where
  "validateOptionalTimestamp ts fieldName =
     (case ts of
        None \<Rightarrow> Returns ()
      | Some n \<Rightarrow>
          if n < 0
          then Throws (new_Error (fieldName @ '' must be a valid Unix timestamp (positive number).''))
          else Returns ())"

text \<open>
  \<open>validateAtLeastOneUpdateField\<close> receives an object with one entry per optional
  argument, of mixed types.
\<close>

datatype js_arg = Undefined | Str string | Bool bool | Num int

definition of_string :: "string option \<Rightarrow> js_arg" where
  "of_string v = (case v of None \<Rightarrow> Undefined | Some s \<Rightarrow> Str s)"

definition of_bool :: "bool option \<Rightarrow> js_arg" where
  "of_bool v = (case v of None \<Rightarrow> Undefined | Some b \<Rightarrow> Bool b)"

definition of_num :: "int option \<Rightarrow> js_arg" where
  "of_num v = (case v of None \<Rightarrow> Undefined | Some n \<Rightarrow> Num n)"

definition validateAtLeastOneUpdateField :: "(string \<times> js_arg) list \<Rightarrow> unit outcome" where
  "validateAtLeastOneUpdateField updateFields =
     (let definedFields = filter (\<lambda>(key, v). v \<noteq> Undefined \<and> v \<noteq> Str []) updateFields
      in if length definedFields = 0
         then Throws (new_Error ''At least one property must be provided for update.'')
         else Returns ())"






section \<open>The backend client\<close>

text \<open>
  The tools reach the backend only through the API client (\<open>get\<close>, \<open>getAllItems\<close>,
  \<open>put\<close>, \<open>post\<close>, \<open>delete\<close>). The client is a parameter of every tool: a backend over
  a state \<open>'s\<close> (the store of the server), whose reads depend on the state and leave it as it
  is, and whose writes return the next state. Every call may raise.

  A response is \<open>null\<close>/\<open>undefined\<close>, some other value that is not an object, or an object:
  a record, of which the tools read the fields below, each of which may be missing, or a page
  of a collection with its \<open>items\<close>, \<open>has_more\<close> and \<open>total\<close>.
\<close>

record item =
  r_id :: "string option"
  r_title :: "string option"
  r_body :: "string option"
  r_parent_id :: "string option"
  r_is_todo :: "int option"
  r_todo_completed :: "int option"
  r_todo_due :: "int option"
  r_created_time :: "int option"
  r_updated_time :: "int option"

record listing =
  l_items :: "item list option"
  l_has_more :: bool
  l_total :: "int option"

datatype response = Nullish | Primitive | Object item | Listing listing


datatype body_value = BStr string | BNum int

type_synonym params = "(string \<times> body_value) list"

datatype request =
    GET string params
  | GET_ALL string params
  | PUT string params
  | POST string params
  | DELETE string

fun is_write :: "request \<Rightarrow> bool" where
  "is_write (GET p q) = False"
| "is_write (GET_ALL p q) = False"
| "is_write (PUT p b) = True"
| "is_write (POST p b) = True"
| "is_write (DELETE p) = True"

record notebook =
  nb_id :: string
  nb_title :: string
  nb_parent_id :: string

record 's backend =
  api_get :: "'s \<Rightarrow> string \<Rightarrow> params \<Rightarrow> response outcome"
  api_getAllItems :: "'s \<Rightarrow> string \<Rightarrow> params \<Rightarrow> notebook list outcome"
  api_put :: "'s \<Rightarrow> string \<Rightarrow> params \<Rightarrow> response outcome \<times> 's"
  api_post :: "'s \<Rightarrow> string \<Rightarrow> params \<Rightarrow> response outcome \<times> 's"
  api_delete :: "'s \<Rightarrow> string \<Rightarrow> response outcome \<times> 's"

section \<open>update-folder.js\<close>

subsection \<open>checkCircularReference\<close>

text \<open>
  The loop walks the parent chain of the proposed parent, one \<open>get\<close> per hop. The set of
  identifiers is unbounded, so the loop need not end: the result is an option, and \<open>None\<close>
  is a walk that never returns. The second component is the list of requests issued.
\<close>

partial_function (option) checkCircularReference_loop ::
  "'s backend \<Rightarrow> 's \<Rightarrow> string \<Rightarrow> string set \<Rightarrow> string \<Rightarrow> request list
     \<Rightarrow> (unit outcome \<times> request list) option" where
  "checkCircularReference_loop b s folderId visitedIds currentParentId log =
     (if currentParentId = [] then Some (Returns (), log)
      else if currentParentId \<in> visitedIds
      then Some (Throws (new_Error ''Circular reference detected in folder hierarchy.''), log)
      else if currentParentId = folderId
      then Some (Throws (new_Error ''Cannot move folder to be its own descendant.''), log)
      else
        (let q = [(''fields'', BStr ''id,parent_id'')];
             log' = log @ [GET (''/folders/'' @ currentParentId) q]
         in case api_get b s (''/folders/'' @ currentParentId) q of
              Throws e \<Rightarrow>
                if response_status e = Some 404
                then Some (Throws (new_Error (''Parent folder with ID '' @ dq @ currentParentId @ dq
                                                @ '' not found.'')), log')
                else Some (Throws e, log')
            | Returns Nullish \<Rightarrow> Some (Throws (TypeError_read ''parent_id''), log')
            | Returns Primitive \<Rightarrow> Some (Returns (), log')
            | Returns (Listing l) \<Rightarrow> Some (Returns (), log')
            | Returns (Object folder) \<Rightarrow>
                (case r_parent_id folder of
                   None \<Rightarrow> Some (Returns (), log')
                 | Some p \<Rightarrow>
                     if p = [] then Some (Returns (), log')
                     else checkCircularReference_loop b s folderId
                            (insert currentParentId visitedIds) p log')))"

declare checkCircularReference_loop.simps [code]

definition checkCircularReference ::
  "'s backend \<Rightarrow> 's \<Rightarrow> string \<Rightarrow> string \<Rightarrow> (unit outcome \<times> request list) option" where
  "checkCircularReference b s folderId parentId =
     checkCircularReference_loop b s folderId {} parentId []"

subsection \<open>UpdateFolder.call\<close>

text \<open>
  The date of the success text is rendered by \<open>new Date(t).toLocaleString()\<close>, which
  depends on the locale of the host: it is the parameter \<open>toLocaleString\<close>.
\<close>

definition UpdateFolder_validate :: "string \<Rightarrow> string option \<Rightarrow> string option \<Rightarrow> unit outcome" where
  "UpdateFolder_validate folderId title parentId =
     and_then (validateFolderId folderId) (\<lambda>_.
     and_then (validateOptionalTitle title) (\<lambda>_.
     and_then (validateOptionalId parentId ''parent folder ID'') (\<lambda>_.
     validateAtLeastOneUpdateField
       [(''title'', of_string title), (''parentId'', of_string parentId)])))"

definition UpdateFolder_requestBody :: "string option \<Rightarrow> string option \<Rightarrow> params" where
  "UpdateFolder_requestBody title parentId =
     (case title of
        None \<Rightarrow> []
      | Some t \<Rightarrow> if t \<noteq> [] then [(''title'', BStr (trim t))] else [])
     @ (case parentId of
          None \<Rightarrow> []
        | Some p \<Rightarrow> if p \<noteq> [] then [(''parent_id'', BStr p)] else [])"

definition UpdateFolder_parentInfo :: "'s backend \<Rightarrow> 's \<Rightarrow> item \<Rightarrow> string \<times> request list" where
  "UpdateFolder_parentInfo b s updatedFolder =
     (case r_parent_id updatedFolder of
        None \<Rightarrow> (''Root level'', [])
      | Some pid \<Rightarrow>
          if pid = [] then (''Root level'', [])
          else
            (let q = [(''fields'', BStr ''id,title'')]
             in (case api_get b s (''/folders/'' @ pid) q of
                   Throws e \<Rightarrow> ''Inside parent folder ('' @ pid @ '')''
                 | Returns (Object parentFolder) \<Rightarrow>
                     if truthy (r_title parentFolder)
                     then ''Inside '' @ dq @ template (r_title parentFolder) @ dq
                            @ '' ('' @ pid @ '')''
                     else ''Root level''
                 | Returns _ \<Rightarrow> ''Root level'',
                 [GET (''/folders/'' @ pid) q])))"

definition check_mark :: string where
  "check_mark = [CHR 0xE2, CHR 0x9C, CHR 0x85]"

definition has_key :: "string \<Rightarrow> params \<Rightarrow> bool" where
  "has_key k body = (map_of body k \<noteq> None)"

definition truthy_key :: "string \<Rightarrow> params \<Rightarrow> bool" where
  "truthy_key k body =
     (case map_of body k of
        None \<Rightarrow> False
      | Some (BStr v) \<Rightarrow> v \<noteq> []
      | Some (BNum n) \<Rightarrow> n \<noteq> 0)"

definition UpdateFolder_resultLines ::
  "(int option \<Rightarrow> string) \<Rightarrow> item \<Rightarrow> string \<Rightarrow> params \<Rightarrow> string list" where
  "UpdateFolder_resultLines toLocaleString updatedFolder parentInfo requestBody =
     (let updatedFields =
            (if truthy_key ''title'' requestBody then [''title''] else [])
            @ (if has_key ''parent_id'' requestBody then [''location''] else [])
      in [check_mark @ '' Successfully updated folder '' @ dq @ template (r_title updatedFolder) @ dq,
          ''Folder ID: '' @ template (r_id updatedFolder),
          ''Location: '' @ parentInfo,
          ''Last updated: '' @ toLocaleString (r_updated_time updatedFolder)]
         @ (if length updatedFields > 0
            then [''Updated fields: '' @ join '', '' updatedFields] else [])
         @ [[],
            ''Next steps:'',
            ''- To view this folder: get_folder folder_id='' @ dq @ template (r_id updatedFolder) @ dq,
            ''- To read folder contents: read_notebook notebook_id='' @ dq
               @ template (r_id updatedFolder) @ dq,
            ''- To see all folders: list_notebooks''])"

definition UpdateFolder_write ::
  "'s backend \<Rightarrow> (int option \<Rightarrow> string) \<Rightarrow> 's \<Rightarrow> string \<Rightarrow> string option \<Rightarrow> string option
     \<Rightarrow> request list \<Rightarrow> string outcome \<times> 's \<times> request list" where
  "UpdateFolder_write b toLocaleString s folderId title parentId log =
     (let requestBody = UpdateFolder_requestBody title parentId;
          path = ''/folders/'' @ folderId;
          log' = log @ [PUT path requestBody];
          unexpected = ''Error: Unexpected response format from Joplin API when updating folder''
      in case api_put b s path requestBody of
           (Throws e, s') \<Rightarrow> (Throws e, s', log')
         | (Returns Nullish, s') \<Rightarrow> (Returns unexpected, s', log')
         | (Returns Primitive, s') \<Rightarrow> (Returns unexpected, s', log')
         | (Returns (Listing l), s') \<Rightarrow> (Returns unexpected, s', log')
         | (Returns (Object updatedFolder), s') \<Rightarrow>
             if \<not> truthy (r_id updatedFolder) then (Returns unexpected, s', log')
             else
               (case UpdateFolder_parentInfo b s' updatedFolder of
                  (parentInfo, plog) \<Rightarrow>
                    (Returns (join [CHR 0x0A]
                       (UpdateFolder_resultLines toLocaleString updatedFolder parentInfo requestBody)),
                     s', log' @ plog)))"

definition UpdateFolder_try ::
  "'s backend \<Rightarrow> (int option \<Rightarrow> string) \<Rightarrow> 's \<Rightarrow> string \<Rightarrow> string option \<Rightarrow> string option
     \<Rightarrow> (string outcome \<times> 's \<times> request list) option" where
  "UpdateFolder_try b toLocaleString s folderId title parentId =
     (case UpdateFolder_validate folderId title parentId of
        Throws e \<Rightarrow> Some (Throws e, s, [])
      | Returns _ \<Rightarrow>
          (case (case parentId of
                   None \<Rightarrow> Some (Returns (), [])
                 | Some p \<Rightarrow>
                     if p \<noteq> [] \<and> p \<noteq> folderId then checkCircularReference b s folderId p
                     else Some (Returns (), [])) of
             None \<Rightarrow> None
           | Some (Throws e, log) \<Rightarrow> Some (Throws e, s, log)
           | Some (Returns _, log) \<Rightarrow>
               if parentId = Some folderId
               then Some (Throws (new_Error ''A folder cannot be moved to itself.''), s, log)
               else Some (UpdateFolder_write b toLocaleString s folderId title parentId log)))"

definition UpdateFolder_catch :: "string \<Rightarrow> js_error \<Rightarrow> string" where
  "UpdateFolder_catch folderId e =
     (if response_status e = Some 404
      then ''Error: Folder with ID '' @ dq @ folderId @ dq
             @ '' not found. Use list_notebooks to see available folders.''
      else if response_status e = Some 400
      then ''Error: Invalid request data. ''
             @ (if truthy (response_data_error e) then template (response_data_error e)
                else ''Please check your input parameters.'')
      else if message e \<noteq> [] then ''Error: '' @ message e
      else ''Error in update_folder: Unknown error'')"

definition UpdateFolder_call ::
  "'s backend \<Rightarrow> (int option \<Rightarrow> string) \<Rightarrow> 's \<Rightarrow> string \<Rightarrow> string option \<Rightarrow> string option
     \<Rightarrow> (string outcome \<times> 's \<times> request list) option" where
  "UpdateFolder_call b toLocaleString s folderId title parentId =
     (case UpdateFolder_try b toLocaleString s folderId title parentId of
        None \<Rightarrow> None
      | Some (Returns text, s', log) \<Rightarrow> Some (Returns text, s', log)
      | Some (Throws e, s', log) \<Rightarrow> Some (Returns (UpdateFolder_catch folderId e), s', log))"

section \<open>update-note.js\<close>

text \<open>
  \<open>Date.now()\<close>, the stamp written for a completed to-do, is the parameter \<open>now\<close>.
\<close>

definition UpdateNote_validate ::
  "string \<Rightarrow> string option \<Rightarrow> string option \<Rightarrow> string option \<Rightarrow> bool option \<Rightarrow> bool option
     \<Rightarrow> int option \<Rightarrow> unit outcome" where
  "UpdateNote_validate noteId title body parentId isTodo todoCompleted todoDue =
     and_then (validateNoteId noteId) (\<lambda>_.
     and_then (validateOptionalTitle title) (\<lambda>_.
     and_then (validateOptionalId parentId ''notebook ID'') (\<lambda>_.
     and_then (validateOptionalBody body) (\<lambda>_.
     and_then (validateOptionalBoolean isTodo ''is_todo'') (\<lambda>_.
     and_then (validateOptionalBoolean todoCompleted ''todo_completed'') (\<lambda>_.
     and_then (validateOptionalTimestamp todoDue ''todo_due'') (\<lambda>_.
     validateAtLeastOneUpdateField
       [(''title'', of_string title), (''body'', of_string body),
        (''parentId'', of_string parentId), (''isTodo'', of_bool isTodo),
        (''todoCompleted'', of_bool todoCompleted), (''todoDue'', of_num todoDue)])))))))"

definition UpdateNote_requestBody ::
  "int \<Rightarrow> string option \<Rightarrow> string option \<Rightarrow> string option \<Rightarrow> bool option \<Rightarrow> bool option
     \<Rightarrow> int option \<Rightarrow> params" where
  "UpdateNote_requestBody now title body parentId isTodo todoCompleted todoDue =
     (case title of
        None \<Rightarrow> []
      | Some t \<Rightarrow> if t \<noteq> [] then [(''title'', BStr (trim t))] else [])
     @ (case body of None \<Rightarrow> [] | Some bd \<Rightarrow> [(''body'', BStr bd)])
     @ (case parentId of
          None \<Rightarrow> []
        | Some p \<Rightarrow> if p \<noteq> [] then [(''parent_id'', BStr p)] else [])
     @ (case isTodo of None \<Rightarrow> [] | Some v \<Rightarrow> [(''is_todo'', BNum (if v then 1 else 0))])
     @ (case todoCompleted of
          None \<Rightarrow> []
        | Some v \<Rightarrow> [(''todo_completed'', BNum (if v then now else 0))])
     @ (case todoDue of None \<Rightarrow> [] | Some d \<Rightarrow> [(''todo_due'', BNum d)])"

definition UpdateNote_resultLines ::
  "(int option \<Rightarrow> string) \<Rightarrow> item \<Rightarrow> params \<Rightarrow> string list" where
  "UpdateNote_resultLines toLocaleString updatedNote requestBody =
     (let updatedFields =
            (if truthy_key ''title'' requestBody then [''title''] else [])
            @ (if has_key ''body'' requestBody then [''content''] else [])
            @ (if truthy_key ''parent_id'' requestBody then [''notebook''] else [])
            @ (if has_key ''is_todo'' requestBody then [''todo status''] else [])
            @ (if has_key ''todo_completed'' requestBody then [''completion status''] else [])
            @ (if has_key ''todo_due'' requestBody then [''due date''] else [])
      in [check_mark @ '' Successfully updated note '' @ dq @ template (r_title updatedNote) @ dq,
          ''Note ID: '' @ template (r_id updatedNote)]
         @ (if truthy (r_parent_id updatedNote)
            then [''Notebook ID: '' @ template (r_parent_id updatedNote)]
            else [''Notebook: Default notebook''])
         @ (if truthy_num (r_is_todo updatedNote)
            then [''Type: Todo item (''
                    @ (if truthy_num (r_todo_completed updatedNote)
                       then ''Completed'' else ''Not completed'') @ '')'']
                 @ (if truthy_num (r_todo_due updatedNote)
                    then [''Due: '' @ toLocaleString (r_todo_due updatedNote)] else [])
                 @ (if truthy_num (r_todo_completed updatedNote)
                    then [''Completed: '' @ toLocaleString (r_todo_completed updatedNote)] else [])
            else [''Type: Regular note''])
         @ [''Last updated: '' @ toLocaleString (r_updated_time updatedNote)]
         @ (if length updatedFields > 0
            then [''Updated fields: '' @ join '', '' updatedFields] else [])
         @ [[],
            ''Next steps:'',
            ''- To read this note: read_note note_id='' @ dq @ template (r_id updatedNote) @ dq]
         @ (if truthy (r_parent_id updatedNote)
            then [''- To view the notebook: read_notebook notebook_id='' @ dq
                    @ template (r_parent_id updatedNote) @ dq]
            else []))"

definition UpdateNote_try ::
  "'s backend \<Rightarrow> (int option \<Rightarrow> string) \<Rightarrow> int \<Rightarrow> 's \<Rightarrow> string \<Rightarrow> string option \<Rightarrow> string option
     \<Rightarrow> string option \<Rightarrow> bool option \<Rightarrow> bool option \<Rightarrow> int option
     \<Rightarrow> string outcome \<times> 's \<times> request list" where
  "UpdateNote_try b toLocaleString now s noteId title body parentId isTodo todoCompleted todoDue =
     (case UpdateNote_validate noteId title body parentId isTodo todoCompleted todoDue of
        Throws e \<Rightarrow> (Throws e, s, [])
      | Returns _ \<Rightarrow>
          (let requestBody =
                 UpdateNote_requestBody now title body parentId isTodo todoCompleted todoDue;
               path = ''/notes/'' @ noteId;
               log = [PUT path requestBody];
               unexpected = ''Error: Unexpected response format from Joplin API when updating note''
           in case api_put b s path requestBody of
                (Throws e, s') \<Rightarrow> (Throws e, s', log)
              | (Returns Nullish, s') \<Rightarrow> (Returns unexpected, s', log)
              | (Returns Primitive, s') \<Rightarrow> (Returns unexpected, s', log)
              | (Returns (Listing l), s') \<Rightarrow> (Returns unexpected, s', log)
              | (Returns (Object updatedNote), s') \<Rightarrow>
                  if \<not> truthy (r_id updatedNote) then (Returns unexpected, s', log)
                  else (Returns (join [CHR 0x0A]
                          (UpdateNote_resultLines toLocaleString updatedNote requestBody)),
                        s', log)))"

definition UpdateNote_catch :: "string \<Rightarrow> js_error \<Rightarrow> string" where
  "UpdateNote_catch noteId e =
     (if response_status e = Some 404
      then ''Error: Note with ID '' @ dq @ noteId @ dq
             @ '' not found. Use search_notes to find valid note IDs.''
      else if response_status e = Some 400
      then ''Error: Invalid request data. ''
             @ (if truthy (response_data_error e) then template (response_data_error e)
                else ''Please check your input parameters.'')
      else if message e \<noteq> [] then ''Error: '' @ message e
      else ''Error in update_note: Unknown error'')"

definition UpdateNote_call ::
  "'s backend \<Rightarrow> (int option \<Rightarrow> string) \<Rightarrow> int \<Rightarrow> 's \<Rightarrow> string \<Rightarrow> string option \<Rightarrow> string option
     \<Rightarrow> string option \<Rightarrow> bool option \<Rightarrow> bool option \<Rightarrow> int option
     \<Rightarrow> string outcome \<times> 's \<times> request list" where
  "UpdateNote_call b toLocaleString now s noteId title body parentId isTodo todoCompleted todoDue =
     (case UpdateNote_try b toLocaleString now s noteId title body parentId isTodo todoCompleted
             todoDue of
        (Returns text, s', log) \<Rightarrow> (Returns text, s', log)
      | (Throws e, s', log) \<Rightarrow> (Returns (UpdateNote_catch noteId e), s', log))"

section \<open>The parent chain of a folder\<close>

text \<open>
  The parent reference that the backend reports for a folder is read as the walk reads it:
  from the \<open>get\<close> of \<open>/folders/<id>\<close> with the projection \<open>id,parent_id\<close>;
  a failed fetch, a response that is no object and an empty or missing reference give none.
  \<open>parent_chain b s F X n P\<close> says that \<open>n\<close> hops upward from \<open>P\<close> arrive at \<open>X\<close>
  for the first time, without passing the folder \<open>F\<close> on the way;
  \<open>hop_requests\<close> lists the fetches of these hops.
\<close>

definition folder_parent :: "'s backend \<Rightarrow> 's \<Rightarrow> string \<Rightarrow> string option" where
  "folder_parent b s cur =
     (case api_get b s (''/folders/'' @ cur) [(''fields'', BStr ''id,parent_id'')] of
        Returns (Object folder) \<Rightarrow>
          (case r_parent_id folder of
             None \<Rightarrow> None
           | Some p \<Rightarrow> if p = [] then None else Some p)
      | _ \<Rightarrow> None)"

fun parent_chain :: "'s backend \<Rightarrow> 's \<Rightarrow> string \<Rightarrow> string \<Rightarrow> nat \<Rightarrow> string \<Rightarrow> bool" where
  "parent_chain b s F X 0 cur = (cur = X)"
| "parent_chain b s F X (Suc n) cur =
     (cur \<noteq> X \<and> cur \<noteq> F \<and>
      (case folder_parent b s cur of None \<Rightarrow> False | Some p \<Rightarrow> parent_chain b s F X n p))"

fun hop_requests :: "'s backend \<Rightarrow> 's \<Rightarrow> nat \<Rightarrow> string \<Rightarrow> request list" where
  "hop_requests b s 0 cur = []"
| "hop_requests b s (Suc n) cur =
     GET (''/folders/'' @ cur) [(''fields'', BStr ''id,parent_id'')]
       # (case folder_parent b s cur of None \<Rightarrow> [] | Some p \<Rightarrow> hop_requests b s n p)"

section \<open>A backend over a store of folders\<close>

text \<open>
  Modelled from the spec: the Backend Client of the external interfaces (fetch one record or
  not-found, fetch all, update), which is not part of the sources. The store is the flat
  collection of folder records \<open>(id, title, parent reference)\<close>; an update overwrites the
  fields that the request body carries and leaves the others as they are, and a record that is
  not there answers with status 404. The tools take their backend as a parameter; this one
  instantiates the theorems below.
\<close>

type_synonym store = "(string \<times> string \<times> string) list"

definition not_found :: js_error where
  "not_found = \<lparr>message = ''Request failed with status code 404'',
                 response_status = Some 404, response_data_error = None\<rparr>"

definition folder_item :: "string \<Rightarrow> string \<Rightarrow> string \<Rightarrow> item" where
  "folder_item i t p =
     \<lparr>r_id = Some i, r_title = Some t, r_body = None, r_parent_id = Some p, r_is_todo = None,
      r_todo_completed = None, r_todo_due = None, r_created_time = Some 0,
      r_updated_time = Some 0\<rparr>"

definition store_get :: "store \<Rightarrow> string \<Rightarrow> params \<Rightarrow> response outcome" where
  "store_get s path q =
     (if take 9 path = ''/folders/''
      then (case map_of s (drop 9 path) of
              None \<Rightarrow> Throws not_found
            | Some (t, p) \<Rightarrow> Returns (Object (folder_item (drop 9 path) t p)))
      else Throws not_found)"

definition store_put :: "store \<Rightarrow> string \<Rightarrow> params \<Rightarrow> response outcome \<times> store" where
  "store_put s path body =
     (if take 9 path = ''/folders/''
      then (case map_of s (drop 9 path) of
              None \<Rightarrow> (Throws not_found, s)
            | Some (t, p) \<Rightarrow>
                (let t' = (case map_of body ''title'' of Some (BStr x) \<Rightarrow> x | _ \<Rightarrow> t);
                     p' = (case map_of body ''parent_id'' of Some (BStr x) \<Rightarrow> x | _ \<Rightarrow> p)
                 in (Returns (Object (folder_item (drop 9 path) t' p')),
                     map (\<lambda>(k, v). if k = drop 9 path then (k, (t', p')) else (k, v)) s)))
      else (Throws not_found, s))"

definition store_backend :: "store backend" where
  "store_backend =
     \<lparr>api_get = store_get,
      api_getAllItems =
        (\<lambda>s path q. Returns (map (\<lambda>(i, t, p). \<lparr>nb_id = i, nb_title = t, nb_parent_id = p\<rparr>) s)),
      api_put = store_put,
      api_post = (\<lambda>s path body. (Throws not_found, s)),
      api_delete = (\<lambda>s path. (Throws not_found, s))\<rparr>"

definition stored_parent :: "store \<Rightarrow> string \<Rightarrow> string option" where
  "stored_parent s i = map_option snd (map_of s i)"

definition inbox :: string where
  "inbox = ''11111111111111111111111111111111''"

definition archive :: string where
  "archive = ''22222222222222222222222222222222''"

definition orphan :: string where
  "orphan = ''33333333333333333333333333333333''"

definition missing :: string where
  "missing = ''44444444444444444444444444444444''"

definition example_store :: store where
  "example_store =
     [(inbox, ''Inbox'', []), (archive, ''Archive'', inbox), (orphan, ''Orphan'', missing)]"

section \<open>list-notebooks.js\<close>






fun insert_by :: "('a \<Rightarrow> 'a \<Rightarrow> int) \<Rightarrow> 'a \<Rightarrow> 'a list \<Rightarrow> 'a list" where
  "insert_by cmp x [] = [x]"
| "insert_by cmp x (y # ys) = (if cmp x y \<le> 0 then x # y # ys else y # insert_by cmp x ys)"

definition sort_by :: "('a \<Rightarrow> 'a \<Rightarrow> int) \<Rightarrow> 'a list \<Rightarrow> 'a list" where
  "sort_by cmp xs = foldr (insert_by cmp) xs []"













section \<open>Forests of folders\<close>







section \<open>The Paginated Collection Fetcher\<close>

text \<open>
  Modelled from the spec: \<open>getAllItems\<close> of the API client (\<open>joplin-api-client.js\<close>, which
  is not among the sources). Given the paged endpoint \<open>fetchPage\<close> of the backend
  (\<open>fetchPage(kind, filter, fields, page) -> {items, hasMore}\<close>, here a function of the page
  number), it issues as many paged requests as the continuation indicator demands, from page
  1, appends the items of each page in the order of the backend, and fails as a whole when a
  page request fails. A backend that never stops announcing more pages keeps the loop running:
  the result is an option, \<open>None\<close> for a fetch that never returns. \<open>serve_pages\<close> is a
  backend that delivers a given list of pages.
\<close>

record 'a page =
  items :: "'a list"
  has_more :: bool

partial_function (option) getAllItems_from ::
  "(nat \<Rightarrow> 'a page outcome) \<Rightarrow> nat \<Rightarrow> 'a list \<Rightarrow> 'a list outcome option" where
  "getAllItems_from fetchPage page_no collected =
     (case fetchPage page_no of
        Throws e \<Rightarrow> Some (Throws e)
      | Returns r \<Rightarrow>
          if has_more r then getAllItems_from fetchPage (Suc page_no) (collected @ items r)
          else Some (Returns (collected @ items r)))"

declare getAllItems_from.simps [code]

definition getAllItems :: "(nat \<Rightarrow> 'a page outcome) \<Rightarrow> 'a list outcome option" where
  "getAllItems fetchPage = getAllItems_from fetchPage 1 []"

definition serve_pages :: "'a list list \<Rightarrow> nat \<Rightarrow> 'a page outcome" where
  "serve_pages pages page_no =
     (if 1 \<le> page_no \<and> page_no \<le> length pages
      then Returns \<lparr>items = pages ! (page_no - 1), has_more = (page_no < length pages)\<rparr>
      else Throws not_found)"

section \<open>Texts of numbers and symbols\<close>













section \<open>delete-note.js\<close>






section \<open>delete-folder.js\<close>







section \<open>create-note.js\<close>







section \<open>create-folder.js\<close>






section \<open>read-note.js and read-notebook.js\<close>













section \<open>get-all-notes.js\<close>










section \<open>get-folder.js\<close>








section \<open>Folder relocation: the walk along the parent chain\<close>

lemma parent_chain_unique:
  "parent_chain b s F X n cur \<Longrightarrow> parent_chain b s F X m cur \<Longrightarrow> n = m"
proof (induction n arbitrary: m cur)
  case 0
  then show ?case by (cases m) auto
next
  case (Suc n)
  then show ?case by (cases m) (auto split: option.splits)
qed

lemma folder_parent_nonempty: "folder_parent b s cur = Some p \<Longrightarrow> p \<noteq> []"
  by (auto simp: folder_parent_def split: outcome.splits response.splits option.splits if_splits)

lemma loop_step:
  assumes "cur \<noteq> []" "cur \<notin> V" "cur \<noteq> F" "folder_parent b s cur = Some p"
  shows "checkCircularReference_loop b s F V cur log =
         checkCircularReference_loop b s F (insert cur V) p
           (log @ [GET (''/folders/'' @ cur) [(''fields'', BStr ''id,parent_id'')]])"
  using assms
  by (subst checkCircularReference_loop.simps)
     (auto simp: folder_parent_def Let_def split: outcome.splits response.splits option.splits if_splits)

text \<open>
  The invariant of the walk: every identifier already visited lies strictly farther from the
  target than the current one, so the visited-set check cannot fire before the target.
\<close>

lemma loop_along:
  assumes "parent_chain b s F X n cur" "\<forall>v\<in>V. \<exists>m>n. parent_chain b s F X m v" "cur \<noteq> []"
  shows "\<exists>V'. X \<notin> V' \<and> X \<noteq> [] \<and>
           checkCircularReference_loop b s F V cur log =
           checkCircularReference_loop b s F V' X (log @ hop_requests b s n cur)"
  using assms
proof (induction n arbitrary: cur V log)
  case 0
  then have "cur = X" by simp
  moreover have "X \<notin> V"
  proof
    assume "X \<in> V"
    with 0 obtain m where "m > 0" "parent_chain b s F X m X" by blast
    then show False by (cases m) auto
  qed
  ultimately show ?case using 0 by auto
next
  case (Suc n)
  from Suc.prems(1) obtain p where p: "cur \<noteq> X" "cur \<noteq> F" "folder_parent b s cur = Some p"
      "parent_chain b s F X n p"
    by (auto split: option.splits)
  have notin: "cur \<notin> V"
  proof
    assume "cur \<in> V"
    with Suc.prems(2) obtain m where "m > Suc n" "parent_chain b s F X m cur" by blast
    with parent_chain_unique[OF Suc.prems(1), of m] show False by simp
  qed
  have inv: "\<forall>v\<in>insert cur V. \<exists>m>n. parent_chain b s F X m v"
  proof
    fix v assume "v \<in> insert cur V"
    then show "\<exists>m>n. parent_chain b s F X m v"
    proof
      assume "v = cur"
      then show ?thesis using Suc.prems(1) by blast
    next
      assume "v \<in> V"
      with Suc.prems(2) obtain m where "m > Suc n" "parent_chain b s F X m v" by blast
      then show ?thesis by (intro exI[of _ m]) simp
    qed
  qed
  from Suc.IH[OF p(4) inv folder_parent_nonempty[OF p(3)]]
  obtain V' where "X \<notin> V'" "X \<noteq> []"
    "checkCircularReference_loop b s F (insert cur V) p
        (log @ [GET (''/folders/'' @ cur) [(''fields'', BStr ''id,parent_id'')]]) =
     checkCircularReference_loop b s F V' X
        ((log @ [GET (''/folders/'' @ cur) [(''fields'', BStr ''id,parent_id'')]]) @ hop_requests b s n p)"
    by blast
  then show ?case
    using loop_step[OF Suc.prems(3) notin p(2) p(3)] p(3) by auto
qed

lemma loop_at_folder:
  assumes "F \<noteq> []" "F \<notin> V"
  shows "checkCircularReference_loop b s F V F log =
         Some (Throws (new_Error ''Cannot move folder to be its own descendant.''), log)"
  using assms by (subst checkCircularReference_loop.simps) simp

lemma loop_at_missing:
  assumes "X \<noteq> []" "X \<notin> V" "X \<noteq> F"
    "api_get b s (''/folders/'' @ X) [(''fields'', BStr ''id,parent_id'')] = Throws e"
    "response_status e = Some 404"
  shows "checkCircularReference_loop b s F V X log =
         Some (Throws (new_Error (''Parent folder with ID '' @ dq @ X @ dq @ '' not found.'')),
               log @ [GET (''/folders/'' @ X) [(''fields'', BStr ''id,parent_id'')]])"
  using assms by (subst checkCircularReference_loop.simps) (simp add: Let_def)

lemma hop_requests_reads: "list_all (\<lambda>r. \<not> is_write r) (hop_requests b s n cur)"
  by (induction n arbitrary: cur) (auto split: option.splits)

lemma validate_cases:
  "UpdateFolder_validate F title (Some P) = Returns () \<or>
   (\<exists>m. m \<noteq> [] \<and> UpdateFolder_validate F title (Some P) = Throws (new_Error m))"
  by (auto simp: UpdateFolder_validate_def and_then_def validateFolderId_def validateOptionalTitle_def
       validateOptionalId_def validateAtLeastOneUpdateField_def of_string_def split: option.splits)

lemma validate_ok:
  "hex32 F \<Longrightarrow> hex32 P \<Longrightarrow> (case title of None \<Rightarrow> True | Some t \<Rightarrow> length t \<le> 255) \<Longrightarrow>
   UpdateFolder_validate F title (Some P) = Returns ()"
  by (auto simp: UpdateFolder_validate_def and_then_def validateFolderId_def validateOptionalTitle_def
       validateOptionalId_def validateAtLeastOneUpdateField_def of_string_def hex32_def split: option.splits)

lemma catch_plain: "m \<noteq> [] \<Longrightarrow> UpdateFolder_catch F (new_Error m) = ''Error: '' @ m"
  by (simp add: UpdateFolder_catch_def new_Error_def)

lemma validate_self:
  "UpdateFolder_validate F title (Some F) =
     (if F = [] \<or> \<not> hex32 F
      then Throws (new_Error ''Invalid folder ID format. Must be 32-character hexadecimal string.'')
      else if (case title of None \<Rightarrow> False | Some t \<Rightarrow> length t > 255)
      then Throws (new_Error ''Title cannot exceed 255 characters.'')
      else Returns ())"
  by (auto simp: UpdateFolder_validate_def and_then_def validateFolderId_def validateOptionalTitle_def
       validateOptionalId_def validateAtLeastOneUpdateField_def of_string_def split: option.splits)

lemmas example_defs =
  example_store_def inbox_def archive_def orphan_def missing_def store_backend_def store_get_def
  store_put_def folder_item_def not_found_def folder_parent_def stored_parent_def

text \<open>
  C1. When the folder \<open>F\<close> being moved is an ancestor of the proposed parent \<open>P\<close> (the
  parent chain walked upward from \<open>P\<close> arrives at \<open>F\<close> after \<open>n > 0\<close> hops), update-folder
  returns an error text, the backend state is the one before the call and the requests issued
  are reads only. When the arguments pass the field validation (well-formed identifiers, a
  title within bounds), the error is the descendant error and the requests are exactly the
  fetches of the hops.
\<close>

theorem descendant_move_rejected:
  assumes chain: "parent_chain b s F F n P" and n: "0 < n" and P: "P \<noteq> []" and F: "F \<noteq> []"
  shows "\<exists>m log. UpdateFolder_call b toLocaleString s F title (Some P)
                    = Some (Returns (''Error: '' @ m), s, log)
           \<and> list_all (\<lambda>r. \<not> is_write r) log
           \<and> (hex32 F \<and> hex32 P \<and> (case title of None \<Rightarrow> True | Some t \<Rightarrow> length t \<le> 255)
                \<longrightarrow> m = ''Cannot move folder to be its own descendant.''
                    \<and> log = hop_requests b s n P)"
proof -
  from n chain have PF: "P \<noteq> F" by (cases n) auto
  from loop_along[OF chain _ P, of "{}" "[]"] loop_at_folder[OF F]
  have walk: "checkCircularReference b s F P =
      Some (Throws (new_Error ''Cannot move folder to be its own descendant.''), hop_requests b s n P)"
    by (auto simp: checkCircularReference_def)
  from validate_cases[of F title P] show ?thesis
  proof
    assume ok: "UpdateFolder_validate F title (Some P) = Returns ()"
    then show ?thesis
      using walk PF P hop_requests_reads[of b s n P]
      by (simp add: UpdateFolder_call_def UpdateFolder_try_def catch_plain)
  next
    assume "\<exists>m. m \<noteq> [] \<and> UpdateFolder_validate F title (Some P) = Throws (new_Error m)"
    then obtain m where m: "m \<noteq> []" "UpdateFolder_validate F title (Some P) = Throws (new_Error m)"
      by blast
    have "\<not> (hex32 F \<and> hex32 P \<and> (case title of None \<Rightarrow> True | Some t \<Rightarrow> length t \<le> 255))"
      using validate_ok[of F P title] m(2) by auto
    then show ?thesis using m
      by (auto simp add: UpdateFolder_call_def UpdateFolder_try_def catch_plain)
  qed
qed

text \<open>
  The scenario of the spec: Archive lies under Inbox, and Inbox is asked to move under
  Archive. The call answers with the descendant error after one fetch, and the store still
  holds Inbox at the root.
\<close>

theorem descendant_move_rejected_witness:
  "parent_chain store_backend example_store inbox inbox (Suc 0) archive
   \<and> UpdateFolder_call store_backend (\<lambda>t. ''today'') example_store inbox None (Some archive)
       = Some (Returns ''Error: Cannot move folder to be its own descendant.'', example_store,
               [GET (''/folders/'' @ archive) [(''fields'', BStr ''id,parent_id'')]])
   \<and> stored_parent example_store inbox = Some []"
proof -
  have c: "parent_chain store_backend example_store inbox inbox (Suc 0) archive"
    by (simp add: example_defs)
  have v: "hex32 inbox" "hex32 archive" "inbox \<noteq> []" "archive \<noteq> []"
    by (simp_all add: hex32_def is_hex_def inbox_def archive_def)
  have h: "hop_requests store_backend example_store (Suc 0) archive
             = [GET (''/folders/'' @ archive) [(''fields'', BStr ''id,parent_id'')]]"
    by (simp add: example_defs)
  have p: "stored_parent example_store inbox = Some []"
    by (simp add: example_defs)
  from descendant_move_rejected[OF c _ v(4) v(3), of "\<lambda>t. ''today''" None]
  show ?thesis using c v h p by auto
qed

section \<open>The self-parent case and a missing ancestor\<close>

text \<open>
  C2. When the proposed parent is the folder itself, update-folder returns an error text
  without issuing any request, read or write, and the backend state is the one before the
  call: a malformed identifier or an over-long title is reported by the field validation,
  every other request by the self-parent error. The case is never passed over in silence.
\<close>

theorem self_parent_rejected:
  "UpdateFolder_call b toLocaleString s F title (Some F) =
     Some (Returns (''Error: '' @
             (if F = [] \<or> \<not> hex32 F
              then ''Invalid folder ID format. Must be 32-character hexadecimal string.''
              else if (case title of None \<Rightarrow> False | Some t \<Rightarrow> length t > 255)
              then ''Title cannot exceed 255 characters.''
              else ''A folder cannot be moved to itself.'')), s, [])"
  by (simp add: UpdateFolder_call_def UpdateFolder_try_def validate_self UpdateFolder_catch_def new_Error_def)

text \<open>Moving Inbox into itself, with a new title supplied as well.\<close>

theorem self_parent_rejected_witness:
  "UpdateFolder_call store_backend (\<lambda>t. ''today'') example_store inbox (Some ''Mail'') (Some inbox)
     = Some (Returns ''Error: A folder cannot be moved to itself.'', example_store, [])"
proof -
  have "hex32 inbox" "inbox \<noteq> []"
    by (simp_all add: hex32_def is_hex_def inbox_def)
  with self_parent_rejected[of store_backend "\<lambda>t. ''today''" example_store inbox "Some ''Mail''"]
  show ?thesis by simp
qed

text \<open>
  C9. When the walk from the proposed parent \<open>P\<close> arrives after \<open>n\<close> hops at an
  identifier \<open>X\<close> whose fetch fails with status 404, update-folder returns the error text that
  names \<open>X\<close> as the parent folder not found; the requests issued are the fetches of the walk,
  no write among them, and the backend state is the one before the call.
\<close>

theorem missing_parent_reported:
  assumes chain: "parent_chain b s F X n P" and X: "X \<noteq> F"
    and miss: "api_get b s (''/folders/'' @ X) [(''fields'', BStr ''id,parent_id'')] = Throws e"
              "response_status e = Some 404"
    and valid: "hex32 F" "hex32 P" "case title of None \<Rightarrow> True | Some t \<Rightarrow> length t \<le> 255"
  shows "UpdateFolder_call b toLocaleString s F title (Some P)
           = Some (Returns (''Error: Parent folder with ID '' @ dq @ X @ dq @ '' not found.''), s,
                   hop_requests b s n P @ [GET (''/folders/'' @ X) [(''fields'', BStr ''id,parent_id'')]])
         \<and> list_all (\<lambda>r. \<not> is_write r)
             (hop_requests b s n P @ [GET (''/folders/'' @ X) [(''fields'', BStr ''id,parent_id'')]])"
proof -
  from valid have P: "P \<noteq> []" by (auto simp: hex32_def)
  have PF: "P \<noteq> F" using chain X by (cases n) auto
  from loop_along[OF chain _ P, of "{}" "[]"]
  obtain V' where V': "X \<notin> V'" "X \<noteq> []"
    "checkCircularReference_loop b s F {} P [] =
     checkCircularReference_loop b s F V' X (hop_requests b s n P)"
    by auto
  have walk: "checkCircularReference b s F P =
      Some (Throws (new_Error (''Parent folder with ID '' @ dq @ X @ dq @ '' not found.'')),
            hop_requests b s n P @ [GET (''/folders/'' @ X) [(''fields'', BStr ''id,parent_id'')]])"
    using V'(3) loop_at_missing[OF V'(2) V'(1) X miss] by (simp add: checkCircularReference_def)
  show ?thesis
    using walk PF P validate_ok[OF valid] hop_requests_reads[of b s n P]
    by (simp add: UpdateFolder_call_def UpdateFolder_try_def catch_plain)
qed

text \<open>
  Orphan refers to a parent that the store does not hold; moving Inbox under Orphan is
  aborted at the second hop.
\<close>

theorem missing_parent_reported_witness:
  "parent_chain store_backend example_store inbox missing (Suc 0) orphan
   \<and> UpdateFolder_call store_backend (\<lambda>t. ''today'') example_store inbox None (Some orphan)
       = Some (Returns (''Error: Parent folder with ID '' @ dq @ missing @ dq @ '' not found.''),
               example_store,
               [GET (''/folders/'' @ orphan) [(''fields'', BStr ''id,parent_id'')],
                GET (''/folders/'' @ missing) [(''fields'', BStr ''id,parent_id'')]])"
proof -
  have c: "parent_chain store_backend example_store inbox missing (Suc 0) orphan"
    by (simp add: example_defs)
  have v: "hex32 inbox" "hex32 orphan" "missing \<noteq> inbox"
    by (simp_all add: hex32_def is_hex_def inbox_def orphan_def missing_def)
  have g: "api_get store_backend example_store (''/folders/'' @ missing)
             [(''fields'', BStr ''id,parent_id'')] = Throws not_found"
    "response_status not_found = Some 404"
    by (simp_all add: example_defs)
  have h: "hop_requests store_backend example_store (Suc 0) orphan
             = [GET (''/folders/'' @ orphan) [(''fields'', BStr ''id,parent_id'')]]"
    by (simp add: example_defs)
  from missing_parent_reported[OF c v(3) g v(1) v(2), of None "\<lambda>t. ''today''"]
  show ?thesis using c h by simp
qed

section \<open>Updates without fields\<close>

lemma note_validate_none:
  assumes "\<not> provided title" "\<not> provided body" "\<not> provided parentId"
  shows "UpdateNote_validate noteId title body parentId None None None =
     Throws (new_Error (if noteId = [] \<or> \<not> hex32 noteId
        then ''Invalid note ID format. Must be 32-character hexadecimal string.''
        else ''At least one property must be provided for update.''))"
  using assms
  by (auto simp: UpdateNote_validate_def and_then_def validateNoteId_def validateOptionalTitle_def
       validateOptionalId_def validateOptionalBody_def validateOptionalBoolean_def
       validateOptionalTimestamp_def validateAtLeastOneUpdateField_def of_string_def of_bool_def
       of_num_def provided_def split: option.splits)

lemma folder_validate_none:
  assumes "\<not> provided title" "\<not> provided parentId"
  shows "UpdateFolder_validate folderId title parentId =
     Throws (new_Error (if folderId = [] \<or> \<not> hex32 folderId
        then ''Invalid folder ID format. Must be 32-character hexadecimal string.''
        else ''At least one property must be provided for update.''))"
  using assms
  by (auto simp: UpdateFolder_validate_def and_then_def validateFolderId_def validateOptionalTitle_def
       validateOptionalId_def validateAtLeastOneUpdateField_def of_string_def provided_def
       split: option.splits)

text \<open>
  C6. An update of a note or of a folder in which every optional field is left out (or is the
  empty string) is rejected by the field validation: the call returns an error text, issues no
  request and leaves the backend state as it is. For a well-formed identifier the message is
  the one of the at-least-one-field check; a malformed identifier is reported first, by the
  identifier check that precedes it.
\<close>

theorem update_without_fields_rejected:
  assumes "\<not> provided title" "\<not> provided body" "\<not> provided parentId"
  shows "UpdateNote_call b toLocaleString now s noteId title body parentId None None None
           = (Returns (''Error: '' @
                (if noteId = [] \<or> \<not> hex32 noteId
                 then ''Invalid note ID format. Must be 32-character hexadecimal string.''
                 else ''At least one property must be provided for update.'')), s, [])
         \<and> UpdateFolder_call b toLocaleString s folderId title parentId
           = Some (Returns (''Error: '' @
                (if folderId = [] \<or> \<not> hex32 folderId
                 then ''Invalid folder ID format. Must be 32-character hexadecimal string.''
                 else ''At least one property must be provided for update.'')), s, [])"
  using assms
  by (simp add: UpdateNote_call_def UpdateNote_try_def note_validate_none UpdateNote_catch_def
        UpdateFolder_call_def UpdateFolder_try_def folder_validate_none UpdateFolder_catch_def
        new_Error_def)

text \<open>Both updates on Inbox with nothing to change.\<close>

theorem update_without_fields_rejected_witness:
  "\<not> provided None \<and> \<not> provided (Some [])
   \<and> UpdateNote_call store_backend (\<lambda>t. ''today'') 0 example_store inbox None (Some []) None None None None
       = (Returns ''Error: At least one property must be provided for update.'', example_store, [])
   \<and> UpdateFolder_call store_backend (\<lambda>t. ''today'') example_store inbox None None
       = Some (Returns ''Error: At least one property must be provided for update.'', example_store, [])"
proof -
  have p: "\<not> provided None" "\<not> provided (Some [])" by (simp_all add: provided_def)
  have "hex32 inbox" "inbox \<noteq> []"
    by (simp_all add: hex32_def is_hex_def inbox_def)
  with update_without_fields_rejected[OF p(1) p(2) p(1),
         of store_backend "\<lambda>t. ''today''" 0 example_store inbox inbox]
  show ?thesis using p by simp
qed

section \<open>Partial update of a folder\<close>

lemma parentInfo_reads: "list_all (\<lambda>r. \<not> is_write r) (snd (UpdateFolder_parentInfo b s f))"
  by (auto simp: UpdateFolder_parentInfo_def Let_def split: option.splits)

lemma validate_title_only:
  assumes "hex32 F" "t \<noteq> []" "length t \<le> 255" "\<not> provided parentId"
  shows "UpdateFolder_validate F (Some t) parentId = Returns ()"
  using assms
  by (auto simp: UpdateFolder_validate_def and_then_def validateFolderId_def validateOptionalTitle_def
       validateOptionalId_def validateAtLeastOneUpdateField_def of_string_def provided_def hex32_def
       split: option.splits)

lemma requestBody_title_only:
  assumes "t \<noteq> []" "\<not> provided parentId"
  shows "UpdateFolder_requestBody (Some t) parentId = [(''title'', BStr (trim t))]"
  using assms by (auto simp: UpdateFolder_requestBody_def provided_def split: option.splits)

lemma write_shape:
  "\<exists>r plog. UpdateFolder_write b toLocaleString s F title parentId log
     = (r, snd (api_put b s (''/folders/'' @ F) (UpdateFolder_requestBody title parentId)),
        log @ PUT (''/folders/'' @ F) (UpdateFolder_requestBody title parentId) # plog)
     \<and> list_all (\<lambda>r. \<not> is_write r) plog"
proof (cases "api_put b s (''/folders/'' @ F) (UpdateFolder_requestBody title parentId)")
  case (Pair r s')
  show ?thesis
  proof (cases r)
    case (Throws e)
    with Pair show ?thesis by (simp add: UpdateFolder_write_def Let_def)
  next
    case (Returns resp)
    show ?thesis
    proof (cases resp)
      case (Object f)
      obtain pinfo plog where pi: "UpdateFolder_parentInfo b s' f = (pinfo, plog)"
        by (cases "UpdateFolder_parentInfo b s' f")
      with parentInfo_reads[of b s' f] have "list_all (\<lambda>r. \<not> is_write r) plog" by simp
      with Pair Returns Object pi show ?thesis
        by (simp add: UpdateFolder_write_def Let_def)
    qed (use Pair Returns in \<open>simp_all add: UpdateFolder_write_def Let_def\<close>)
  qed
qed

text \<open>
  C7. An update-folder call that supplies a title and no new parent passes the validation,
  skips the walk and sends one write, the first request of the call: a \<open>put\<close> on the folder
  whose body holds the trimmed title and nothing else. The requests after it are reads, and
  the state after the call is the one this \<open>put\<close> leaves. Hence on every backend whose
  \<open>put\<close> leaves the stored parent references alone when the body carries no \<open>parent_id\<close>,
  the stored parent reference is the one before the call.
\<close>

theorem title_only_update_keeps_parent:
  assumes "hex32 F" "t \<noteq> []" "length t \<le> 255" "\<not> provided parentId"
  shows "\<exists>text s' plog.
           UpdateFolder_call b toLocaleString s F (Some t) parentId
             = Some (Returns text, s', PUT (''/folders/'' @ F) [(''title'', BStr (trim t))] # plog)
         \<and> list_all (\<lambda>r. \<not> is_write r) plog
         \<and> s' = snd (api_put b s (''/folders/'' @ F) [(''title'', BStr (trim t))])
         \<and> ((\<forall>st path body. \<not> has_key ''parent_id'' body
                \<longrightarrow> parent_of (snd (api_put b st path body)) = parent_of st)
              \<longrightarrow> parent_of s' = parent_of s)"
proof -
  have nokey: "\<not> has_key ''parent_id'' [(''title'', BStr (trim t))]"
    by (simp add: has_key_def)
  from write_shape[of b toLocaleString s F "Some t" parentId "[]"]
  obtain r plog where w: "UpdateFolder_write b toLocaleString s F (Some t) parentId []
     = (r, snd (api_put b s (''/folders/'' @ F) [(''title'', BStr (trim t))]),
        PUT (''/folders/'' @ F) [(''title'', BStr (trim t))] # plog)"
    "list_all (\<lambda>r. \<not> is_write r) plog"
    using requestBody_title_only[OF assms(2,4)] by auto
  have F: "parentId \<noteq> Some F" using assms(1,4) by (auto simp: provided_def hex32_def)
  have tr: "UpdateFolder_try b toLocaleString s F (Some t) parentId
     = Some (r, snd (api_put b s (''/folders/'' @ F) [(''title'', BStr (trim t))]),
        PUT (''/folders/'' @ F) [(''title'', BStr (trim t))] # plog)"
    using validate_title_only[OF assms] w(1) assms(4) F
    by (auto simp: UpdateFolder_try_def provided_def split: option.splits)
  show ?thesis
    using tr w(2) nokey by (cases r) (auto simp: UpdateFolder_call_def)
qed

lemma map_of_overwrite:
  "map_of (map (\<lambda>(k, v). if k = j then (k, c) else (k, v)) st) i
     = (if i = j then (case map_of st j of None \<Rightarrow> None | Some v \<Rightarrow> Some c) else map_of st i)"
  by (induction st) (auto split: option.splits)

lemma store_put_keeps_parent:
  assumes "\<not> has_key ''parent_id'' body"
  shows "stored_parent (snd (store_put st path body)) i = stored_parent st i"
  using assms
  by (auto simp: store_put_def stored_parent_def has_key_def Let_def map_of_overwrite
        split: option.splits body_value.splits)

text \<open>Renaming Archive in the store of folders: it stays under Inbox.\<close>

theorem title_only_update_keeps_parent_witness:
  "hex32 archive \<and> \<not> provided None
   \<and> (\<exists>text plog. UpdateFolder_call store_backend (\<lambda>t. ''today'') example_store archive
                      (Some ''Old mail '') None
         = Some (Returns text,
                 [(inbox, ''Inbox'', []), (archive, ''Old mail'', inbox), (orphan, ''Orphan'', missing)],
                 PUT (''/folders/'' @ archive) [(''title'', BStr ''Old mail'')] # plog))
   \<and> stored_parent (snd (api_put store_backend example_store (''/folders/'' @ archive)
                           [(''title'', BStr ''Old mail'')])) archive
       = stored_parent example_store archive"
proof -
  have v: "hex32 archive" "\<not> provided None" "''Old mail '' \<noteq> []" "length ''Old mail '' \<le> 255"
    by (simp_all add: hex32_def is_hex_def archive_def provided_def)
  have t: "trim ''Old mail '' = ''Old mail''"
    by (simp add: trim_def is_space_def)
  have p: "snd (api_put store_backend example_store (''/folders/'' @ archive)
                  [(''title'', BStr ''Old mail'')])
           = [(inbox, ''Inbox'', []), (archive, ''Old mail'', inbox), (orphan, ''Orphan'', missing)]"
    by (simp add: example_defs Let_def)
  have c: "\<forall>st path body. \<not> has_key ''parent_id'' body
             \<longrightarrow> (\<lambda>s. stored_parent s archive) (snd (api_put store_backend st path body))
                 = (\<lambda>s. stored_parent s archive) st"
    by (simp add: store_put_keeps_parent store_backend_def)
  from title_only_update_keeps_parent[OF v(1) v(3) v(4) v(2),
         of store_backend "\<lambda>t. ''today''" example_store "\<lambda>s. stored_parent s archive"]
  show ?thesis using v t p c by auto
qed

section \<open>Grouping by parent and the missing root group\<close>





section \<open>The sibling order\<close>



lemma set_insert_by: "set (insert_by cmp x xs) = insert x (set xs)"
  by (induction xs) auto

lemma sorted_insert_by:
  assumes total: "\<And>x y. cmp x y \<le> 0 \<or> cmp y x \<le> 0"
    and trans: "\<And>x y z. cmp x y \<le> 0 \<Longrightarrow> cmp y z \<le> 0 \<Longrightarrow> cmp x z \<le> 0"
  shows "sorted_wrt (\<lambda>a b. cmp a b \<le> 0) xs \<Longrightarrow> sorted_wrt (\<lambda>a b. cmp a b \<le> 0) (insert_by cmp x xs)"
proof (induction xs)
  case Nil
  then show ?case by simp
next
  case (Cons y ys)
  show ?case
  proof (cases "cmp x y \<le> 0")
    case True
    with Cons.prems trans show ?thesis by auto
  next
    case False
    with total[of x y] have "cmp y x \<le> 0" by simp
    with False Cons show ?thesis by (auto simp: set_insert_by)
  qed
qed

lemma sorted_sort_by:
  assumes "\<And>x y. cmp x y \<le> 0 \<or> cmp y x \<le> 0"
    and "\<And>x y z. cmp x y \<le> 0 \<Longrightarrow> cmp y z \<le> 0 \<Longrightarrow> cmp x z \<le> 0"
  shows "sorted_wrt (\<lambda>a b. cmp a b \<le> 0) (sort_by cmp xs)"
  unfolding sort_by_def
  by (induction xs) (auto intro: sorted_insert_by[OF assms])




lemma length_insert_by: "length (insert_by cmp x xs) = Suc (length xs)"
  by (induction xs) auto

lemma length_sort_by: "length (sort_by cmp xs) = length xs"
  unfolding sort_by_def by (induction xs) (auto simp: length_insert_by)



section \<open>Rendering a forest\<close>

























section \<open>Fetching all pages\<close>

lemma from_full_pages:
  assumes "\<And>i. i < length ps \<Longrightarrow> \<exists>r. fetchPage (p + i) = Returns r \<and> items r = ps ! i \<and> has_more r"
  shows "getAllItems_from fetchPage p acc = getAllItems_from fetchPage (p + length ps) (acc @ concat ps)"
  using assms
proof (induction ps arbitrary: p acc)
  case Nil
  show ?case by simp
next
  case (Cons x ps)
  from Cons.prems[of 0] obtain r where r: "fetchPage p = Returns r" "items r = x" "has_more r"
    by auto
  have "\<exists>r. fetchPage (Suc p + i) = Returns r \<and> items r = ps ! i \<and> has_more r" if "i < length ps" for i
    using Cons.prems[of "Suc i"] that by simp
  from Cons.IH[of "Suc p" "acc @ x", OF this]
  have "getAllItems_from fetchPage (Suc p) (acc @ x)
          = getAllItems_from fetchPage (Suc p + length ps) ((acc @ x) @ concat ps)" .
  then show ?case
    using r by (subst getAllItems_from.simps) simp
qed

text \<open>
  C5. When the backend delivers the pages \<open>pages\<close>, announcing more after each but the
  last, the fetcher returns their concatenation, in the order of the backend; for pages of the
  sizes 100, 100 and 37 the sequence has length 237. When a page request fails after any number
  of pages that announced more, the fetcher returns that error and no part of the collection.
\<close>

theorem fetcher_concatenates_pages:
  "(pages \<noteq> []
     \<and> (\<forall>i<length pages. \<exists>r. fetchPage (Suc i) = Returns r \<and> items r = pages ! i
                                \<and> has_more r = (Suc i < length pages))
     \<longrightarrow> getAllItems fetchPage = Some (Returns (concat pages))
         \<and> (map length pages = [100, 100, 37] \<longrightarrow> length (concat pages) = 237))
   \<and> ((\<forall>i<k. \<exists>r. fetchPage (Suc i) = Returns r \<and> has_more r) \<and> fetchPage (Suc k) = Throws e
       \<longrightarrow> getAllItems fetchPage = Some (Throws e))"
proof (intro conjI impI)
  assume a: "pages \<noteq> [] \<and> (\<forall>i<length pages. \<exists>r. fetchPage (Suc i) = Returns r \<and> items r = pages ! i
                                \<and> has_more r = (Suc i < length pages))"
  then obtain ps l where pl: "pages = ps @ [l]" by (metis rev_exhaust)
  from a have all: "\<And>i. i < length pages \<Longrightarrow> \<exists>r. fetchPage (Suc i) = Returns r
      \<and> items r = pages ! i \<and> has_more r = (Suc i < length pages)" by blast
  have full: "\<exists>r. fetchPage (1 + i) = Returns r \<and> items r = ps ! i \<and> has_more r" if "i < length ps" for i
    using all[of i] that pl by (auto simp: nth_append)
  from all[of "length ps"] pl obtain r where r: "fetchPage (Suc (length ps)) = Returns r" "items r = l" "\<not> has_more r"
    by (auto simp: nth_append)
  have "getAllItems_from fetchPage 1 [] = getAllItems_from fetchPage (1 + length ps) ([] @ concat ps)"
    by (rule from_full_pages) (rule full)
  also have "\<dots> = Some (Returns (concat ps @ l))"
    using r by (subst getAllItems_from.simps) simp
  finally show "getAllItems fetchPage = Some (Returns (concat pages))"
    by (simp add: getAllItems_def pl)
next
  assume "map length pages = [100, 100, 37]"
  then have "sum_list (map length pages) = 237" by simp
  then show "length (concat pages) = 237" by (simp add: length_concat)
next
  assume a: "(\<forall>i<k. \<exists>r. fetchPage (Suc i) = Returns r \<and> has_more r) \<and> fetchPage (Suc k) = Throws e"
  define ps where "ps = map (\<lambda>i. case fetchPage (Suc i) of Returns r \<Rightarrow> items r | Throws x \<Rightarrow> []) [0..<k]"
  have full: "\<exists>r. fetchPage (1 + i) = Returns r \<and> items r = ps ! i \<and> has_more r" if "i < length ps" for i
    using a that by (auto simp: ps_def)
  have "getAllItems_from fetchPage 1 [] = getAllItems_from fetchPage (1 + length ps) ([] @ concat ps)"
    by (rule from_full_pages) (rule full)
  also have "\<dots> = Some (Throws e)"
    using a by (subst getAllItems_from.simps) (simp add: ps_def)
  finally show "getAllItems fetchPage = Some (Throws e)"
    by (simp add: getAllItems_def)
qed


text \<open>Three pages of sizes 100, 100 and 37, and a backend whose second page fails.\<close>

theorem fetcher_concatenates_pages_witness:
  "getAllItems (serve_pages [replicate 100 (1::nat), replicate 100 2, replicate 37 3])
     = Some (Returns (replicate 100 1 @ replicate 100 2 @ replicate 37 3))
   \<and> length (replicate 100 (1::nat) @ replicate 100 2 @ replicate 37 3) = 237
   \<and> getAllItems (\<lambda>p. if p = 1 then Returns \<lparr>items = [1::nat], has_more = True\<rparr>
                        else Throws not_found)
       = Some (Throws not_found)"
proof -
  let ?pages = "[replicate 100 (1::nat), replicate 100 2, replicate 37 3]"
  let ?failing = "\<lambda>p. if p = 1 then Returns \<lparr>items = [1::nat], has_more = True\<rparr>
                       else Throws not_found"
  have served: "\<forall>i<length ?pages. \<exists>r. serve_pages ?pages (Suc i) = Returns r \<and> items r = ?pages ! i
                  \<and> has_more r = (Suc i < length ?pages)"
    by (simp add: serve_pages_def)
  have fails: "(\<forall>i<Suc 0. \<exists>r. ?failing (Suc i) = Returns r \<and> has_more r)
                 \<and> ?failing (Suc (Suc 0)) = Throws not_found"
    by simp
  from fetcher_concatenates_pages[of ?pages "serve_pages ?pages" "Suc 0" not_found] served
  have "getAllItems (serve_pages ?pages) = Some (Returns (concat ?pages))" by blast
  moreover from fetcher_concatenates_pages[of ?pages ?failing "Suc 0" not_found] fails
  have "getAllItems ?failing = Some (Throws not_found)" by blast
  ultimately show ?thesis by simp
qed

section \<open>No error leaves a tool\<close>









end
